theory Spec2Isabelle
  imports Complex_Main "HOL-Library.Sublist"
begin

section \<open>Python values, exceptions and the observable world\<close>

text \<open>
  The module \<open>fastembed/embedding.py\<close> talks to the file system, to an HTTP server, to the
  \<open>tarfile\<close> and \<open>tempfile\<close> modules and to optional machine-learning libraries. Every
  such effect is explicit here: the file system is a map from paths to nodes, everything the
  code does that can be observed from outside (HTTP requests, printed lines, progress-bar
  calls, model loads) is appended to a log, and what the outside answers is read from an
  environment record.
\<close>

datatype exn_class =
    ValueError | TypeError | ImportError | NotImplementedError
  | TarError | OSError | FileExistsError | FileNotFoundError | NotADirectoryError
  | ConnectionError | AttributeError | KeyboardInterrupt

text \<open>An exception object: its class and \<open>str(e)\<close>.\<close>

datatype pyexc = Exc (exc_class: exn_class) (exc_str: string)

text \<open>
  \<open>except Exception\<close> catches every class above but \<open>KeyboardInterrupt\<close>, which derives
  from \<open>BaseException\<close> only; \<open>except tarfile.TarError\<close> catches \<open>TarError\<close> alone.
\<close>

fun is_Exception :: "pyexc \<Rightarrow> bool" where
  "is_Exception (Exc c m) = (c \<noteq> KeyboardInterrupt)"

fun is_TarError :: "pyexc \<Rightarrow> bool" where
  "is_TarError (Exc c m) = (c = TarError)"

datatype node = File string | Dir

datatype event =
    HttpGet string
  | Print string
  | BarCreate int
  | BarUpdate nat
  | BarClose
  | LoadTokenizer string
  | LoadModel string
  | LoadSentenceTransformer string
  | Tokenize string "string list"
  | Forward string
  | LibraryEncode string "string list"

record world =
  fs :: "string \<rightharpoonup> node"
  trace :: "event list"

definition emit :: "event \<Rightarrow> world \<Rightarrow> world" where
  "emit e w = w\<lparr>trace := trace w @ [e]\<rparr>"

definition path_exists :: "world \<Rightarrow> string \<Rightarrow> bool" where
  \<comment> \<open>\<open>os.path.exists\<close>\<close>
  "path_exists w p = (fs w p \<noteq> None)"

fun is_File :: "node option \<Rightarrow> bool" where
  "is_File (Some (File c)) = True"
| "is_File _ = False"

definition isfile :: "world \<Rightarrow> string \<Rightarrow> bool" where
  \<comment> \<open>\<open>os.path.isfile\<close>\<close>
  "isfile w p = is_File (fs w p)"

subsection \<open>Decimal rendering of integers in f-strings\<close>

definition digit :: "nat \<Rightarrow> char" where
  "digit n = ''0123456789'' ! (n mod 10)"

function str_nat :: "nat \<Rightarrow> string" where
  "str_nat n = (if n < 10 then [digit n] else str_nat (n div 10) @ [digit n])"
  by pat_completeness auto
termination
  by (relation "measure id") auto

definition str_int :: "int \<Rightarrow> string" where
  "str_int i = (if i < 0 then CHR ''-'' # str_nat (nat (- i)) else str_nat (nat i))"

section \<open>The artifact fetcher: \<open>DefaultEmbedding.download_file_from_gcs\<close>\<close>

text \<open>
  The value of the \<open>content-length\<close> header as \<open>int(response.headers.get("content-length", 0))\<close>
  sees it: absent, a decimal number, or text on which \<open>int\<close> raises \<open>ValueError\<close>.
\<close>

datatype header = NoHeader | IntHeader int | BadHeader string

text \<open>
  One step of \<open>response.iter_content(chunk_size=1024)\<close>: the iterator yields a chunk
  (possibly empty, a keep-alive), or the step raises (the iterator itself, the progress
  update or the write) before anything of that chunk reaches the file.
\<close>

datatype stream_event = Chunk string | Raise pyexc

record response =
  status_code :: int
  content_length :: header
  body :: "stream_event list"

record http_env =
  get :: "string \<Rightarrow> pyexc + response"
    \<comment> \<open>\<open>requests.get(url, stream=True)\<close>: raises or answers\<close>
  open_wb :: "string \<Rightarrow> pyexc option"
    \<comment> \<open>the exception \<open>open(path, "wb")\<close> raises, if any\<close>

fun int_header :: "header \<Rightarrow> pyexc + int" where
  "int_header NoHeader = Inr 0"
| "int_header (IntHeader n) = Inr n"
| "int_header (BadHeader s) =
     Inl (Exc ValueError (''invalid literal for int() with base 10: '' @ s))"

definition create_file :: "string \<Rightarrow> world \<Rightarrow> world" where
  \<comment> \<open>\<open>open(path, "wb")\<close> creates the file, or truncates it\<close>
  "create_file p w = w\<lparr>fs := (fs w)(p \<mapsto> File [])\<rparr>"

definition write_chunk :: "string \<Rightarrow> string \<Rightarrow> world \<Rightarrow> world" where
  \<comment> \<open>\<open>file.write(chunk)\<close> on the file opened at \<open>p\<close>\<close>
  "write_chunk p c w =
     w\<lparr>fs := (fs w)(p \<mapsto> File ((case fs w p of Some (File old) \<Rightarrow> old | _ \<Rightarrow> []) @ c))\<rparr>"

text \<open>
  The \<open>for chunk in response.iter_content(...)\<close> loop. \<open>bar\<close> says whether
  \<open>progress_bar\<close> is not \<open>None\<close>. The result is the exception that left the loop, if any.
\<close>

fun stream_body :: "bool \<Rightarrow> string \<Rightarrow> stream_event list \<Rightarrow> world \<Rightarrow> pyexc option \<times> world" where
  "stream_body bar p [] w = (None, w)"
| "stream_body bar p (Raise e # es) w = (Some e, w)"
| "stream_body bar p (Chunk c # es) w =
     (if c \<noteq> []
      then stream_body bar p es
             (write_chunk p c (if bar then emit (BarUpdate (length c)) w else w))
      else stream_body bar p es w)"

definition close_bar :: "bool \<Rightarrow> world \<Rightarrow> world" where
  \<comment> \<open>the \<open>finally\<close> clause\<close>
  "close_bar bar w = (if bar then emit BarClose w else w)"

text \<open>
  The \<open>try\<close> statement of the function: \<open>open\<close>, the loop, \<open>except Exception\<close>,
  \<open>finally\<close>, and the \<open>return output_path\<close> after it.
\<close>

definition attempt_download ::
  "http_env \<Rightarrow> bool \<Rightarrow> string \<Rightarrow> stream_event list \<Rightarrow> world \<Rightarrow> (pyexc + string option) \<times> world" where
  "attempt_download E bar output_path chunks w =
     (case (case open_wb E output_path of
              Some e \<Rightarrow> (Some e, w)
            | None \<Rightarrow> stream_body bar output_path chunks (create_file output_path w)) of
        (None, w') \<Rightarrow> (Inr (Some output_path), close_bar bar w')
      | (Some e, w') \<Rightarrow>
          if is_Exception e
          then (Inr None,
                close_bar bar
                  (emit (Print (''An error occurred while trying to download the file: '' @ exc_str e)) w'))
          else (Inl e, close_bar bar w'))"

text \<open>
  The result is \<open>Inl e\<close> when \<open>e\<close> propagates to the caller, \<open>Inr None\<close> when the function
  returns nothing, \<open>Inr (Some p)\<close> when it returns the path.
\<close>

definition download_file_from_gcs ::
  "http_env \<Rightarrow> string \<Rightarrow> string \<Rightarrow> bool \<Rightarrow> world \<Rightarrow> (pyexc + string option) \<times> world" where
  "download_file_from_gcs E url output_path show_progress w =
     (if path_exists w output_path then (Inr (Some output_path), w)
      else
        let w1 = emit (HttpGet url) w in
        case get E url of
          Inl e \<Rightarrow> (Inl e, w1)
        | Inr response \<Rightarrow>
            if status_code response = 403
            then (Inr None,
                  emit (Print ''Authentication error: you do not have permission to access this resource.'') w1)
            else if status_code response \<noteq> 200
            then (Inr None,
                  emit (Print (''HTTP error '' @ str_int (status_code response)
                               @ '' while trying to download the file.'')) w1)
            else
              case int_header (content_length response) of
                Inl e \<Rightarrow> (Inl e, w1)
              | Inr total_size_in_bytes \<Rightarrow>
                  let w2 = (if total_size_in_bytes = 0
                            then emit (Print (''Warning: Content-length header is missing or zero in the response from ''
                                              @ url @ ''.'')) w1
                            else w1);
                      bar = (total_size_in_bytes \<noteq> 0 \<and> show_progress);
                      w3 = (if bar then emit (BarCreate total_size_in_bytes) w2 else w2)
                  in attempt_download E bar output_path (body response) w3)"

section \<open>The archive cache: \<open>DefaultEmbedding.decompress_to_cache\<close>\<close>

text \<open>
  What \<open>tarfile\<close> and \<open>tempfile\<close> do is read from the environment. \<open>untar\<close> gives, for the
  bytes of an archive file, the members that \<open>tarfile.open(path, "r:gz")\<close> followed by
  \<open>tar.extractall\<close> writes, in order, and the exception that ends the extraction, if any
  (a \<open>TarError\<close> for a file that is no gzip-compressed tar, possibly another class, and
  possibly after some members are already written).
\<close>

record archive_env =
  untar :: "string \<Rightarrow> (string \<times> node) list \<times> pyexc option"
  gettempdir :: string
    \<comment> \<open>\<open>tempfile.gettempdir()\<close>\<close>
  candidate_names :: "string list"
    \<comment> \<open>the random names \<open>tempfile\<close> tries, in turn\<close>

definition path_join :: "string \<Rightarrow> string \<Rightarrow> string" where
  \<comment> \<open>\<open>os.path.join\<close> of \<open>posixpath\<close>\<close>
  "path_join a p =
     (if prefix ''/'' p then p
      else if a = [] \<or> suffix ''/'' a then a @ p
      else a @ ''/'' @ p)"

text \<open>
  \<open>tempfile.mkdtemp()\<close> with its default arguments: the directory is
  \<open>os.path.join(gettempdir(), "tmp" + name)\<close> for the first candidate name that is free;
  \<open>"tmp"\<close> is the default prefix. When every candidate exists it raises \<open>FileExistsError\<close>.
\<close>

fun mkdtemp_names :: "string \<Rightarrow> string list \<Rightarrow> world \<Rightarrow> (pyexc + string) \<times> world" where
  "mkdtemp_names dir [] w =
     (Inl (Exc FileExistsError ''No usable temporary directory name found''), w)"
| "mkdtemp_names dir (name # names) w =
     (let file = path_join dir (''tmp'' @ name)
      in if path_exists w file then mkdtemp_names dir names w
         else (Inr file, w\<lparr>fs := (fs w)(file \<mapsto> Dir)\<rparr>))"

definition mkdtemp :: "archive_env \<Rightarrow> world \<Rightarrow> (pyexc + string) \<times> world" where
  "mkdtemp A w = mkdtemp_names (gettempdir A) (candidate_names A) w"

definition inside :: "string \<Rightarrow> string \<Rightarrow> bool" where
  \<comment> \<open>\<open>p\<close> is the directory \<open>d\<close> or lies below it\<close>
  "inside d p = (p = d \<or> prefix (path_join d []) p)"

text \<open>
  \<open>shutil.rmtree(d)\<close>: removes the directory and everything below it; raises when \<open>d\<close>
  is missing or is not a directory.
\<close>

definition rmtree :: "string \<Rightarrow> world \<Rightarrow> pyexc option \<times> world" where
  "rmtree d w =
     (case fs w d of
        None \<Rightarrow> (Some (Exc FileNotFoundError d), w)
      | Some (File c) \<Rightarrow> (Some (Exc NotADirectoryError d), w)
      | Some Dir \<Rightarrow> (None, w\<lparr>fs := (\<lambda>p. if inside d p then None else fs w p)\<rparr>))"

text \<open>
  Extracting one member below \<open>cache_dir\<close>; \<open>tarfile\<close> creates the directory above the
  member when it is missing. Member names are joined as they are: nothing keeps a name
  from pointing outside \<open>cache_dir\<close>.
\<close>

definition extract_member :: "string \<Rightarrow> string \<times> node \<Rightarrow> world \<Rightarrow> world" where
  "extract_member cache_dir m w =
     w\<lparr>fs := (if path_exists w cache_dir then fs w else (fs w)(cache_dir \<mapsto> Dir))
               (path_join cache_dir (fst m) \<mapsto> snd m)\<rparr>"

fun file_bytes :: "node option \<Rightarrow> string" where
  "file_bytes (Some (File c)) = c"
| "file_bytes _ = []"

definition extractall :: "archive_env \<Rightarrow> string \<Rightarrow> string \<Rightarrow> world \<Rightarrow> pyexc option \<times> world" where
  \<comment> \<open>the body of the \<open>with tarfile.open(targz_path, "r:gz") as tar\<close> block\<close>
  "extractall A targz_path cache_dir w =
     (case untar A (file_bytes (fs w targz_path)) of
        (members, failure) \<Rightarrow> (failure, fold (extract_member cache_dir) members w))"

text \<open>
  \<open>cache_dir\<close> is \<open>None\<close> when the caller leaves the argument out. \<open>"tmp" in cache_dir\<close>
  is the substring test \<open>sublist\<close>. An exception of \<open>shutil.rmtree\<close> inside the handler
  replaces the \<open>ValueError\<close> the handler was about to raise.
\<close>

definition decompress_to_cache ::
  "archive_env \<Rightarrow> string \<Rightarrow> string option \<Rightarrow> world \<Rightarrow> (pyexc + string) \<times> world" where
  "decompress_to_cache A targz_path cache_dir w =
     (if \<not> isfile w targz_path
      then (Inl (Exc ValueError (targz_path @ '' does not exist or is not a file.'')), w)
      else if \<not> suffix ''.tar.gz'' targz_path
      then (Inl (Exc ValueError (targz_path @ '' is not a .tar.gz file.'')), w)
      else
        case (case cache_dir of None \<Rightarrow> mkdtemp A w | Some d \<Rightarrow> (Inr d, w)) of
          (Inl e, w1) \<Rightarrow> (Inl e, w1)
        | (Inr d, w1) \<Rightarrow>
            (case extractall A targz_path d w1 of
               (None, w2) \<Rightarrow> (Inr d, emit (Print (''Files have been decompressed into '' @ d)) w2)
             | (Some e, w2) \<Rightarrow>
                 if is_TarError e
                 then
                   (let wrapped = Exc ValueError (''An error occurred while decompressing ''
                                                  @ targz_path @ '': '' @ exc_str e)
                    in if sublist ''tmp'' d
                       then (case rmtree d w2 of
                               (Some e', w3) \<Rightarrow> (Inl e', w3)
                             | (None, w3) \<Rightarrow> (Inl wrapped, w3))
                       else (Inl wrapped, w2))
                 else (Inl e, w2)))"

section \<open>Calling a Python function: how arguments reach parameters\<close>

text \<open>
  The functions of the module are written in class bodies, and what a call passes depends
  on how the function is looked up. A plain function looked up on an instance is a bound
  method: the instance is passed first. A \<open>classmethod\<close> is passed the class first,
  whether looked up on the class or on an instance. The interpreter then fills the
  parameters: positional arguments from the left, then each keyword argument by name
  (a name that is no parameter, or a parameter that already has a value, is a
  \<open>TypeError\<close>), then the check that no positional argument is left over, then the
  defaults of the parameters still empty (a parameter without default is a \<open>TypeError\<close>).
  None of the functions here takes \<open>*args\<close> or \<open>**kwargs\<close>.
\<close>

datatype 'v param = Required string | Optional string 'v

fun param_name :: "'v param \<Rightarrow> string" where
  "param_name (Required n) = n"
| "param_name (Optional n d) = n"

definition quoted :: "string \<Rightarrow> string" where
  "quoted n = [CHR 0x27] @ n @ [CHR 0x27]"

fun bind_keywords ::
  "string \<Rightarrow> string list \<Rightarrow> (string \<times> 'v) list \<Rightarrow> (string \<times> 'v) list \<Rightarrow> pyexc + (string \<times> 'v) list" where
  "bind_keywords f names bound [] = Inr bound"
| "bind_keywords f names bound ((k, v) # kws) =
     (if k \<notin> set names
      then Inl (Exc TypeError (f @ ''() got an unexpected keyword argument '' @ quoted k))
      else if k \<in> set (map fst bound)
      then Inl (Exc TypeError (f @ ''() got multiple values for argument '' @ quoted k))
      else bind_keywords f names (bound @ [(k, v)]) kws)"

fun fill_defaults ::
  "string \<Rightarrow> 'v param list \<Rightarrow> (string \<times> 'v) list \<Rightarrow> pyexc + (string \<times> 'v) list" where
  "fill_defaults f [] bound = Inr bound"
| "fill_defaults f (Required n # ps) bound =
     (if n \<in> set (map fst bound) then fill_defaults f ps bound
      else Inl (Exc TypeError (f @ ''() missing 1 required positional argument: '' @ quoted n)))"
| "fill_defaults f (Optional n d # ps) bound =
     (if n \<in> set (map fst bound) then fill_defaults f ps bound
      else fill_defaults f ps (bound @ [(n, d)]))"

definition bind_call ::
  "string \<Rightarrow> 'v param list \<Rightarrow> 'v list \<Rightarrow> (string \<times> 'v) list \<Rightarrow> pyexc + (string \<times> 'v) list" where
  "bind_call f params pos kws =
     (case bind_keywords f (map param_name params) (zip (map param_name params) pos) kws of
        Inl e \<Rightarrow> Inl e
      | Inr bound \<Rightarrow>
          if length params < length pos
          then Inl (Exc TypeError (f @ ''() takes '' @ str_nat (length params)
                                   @ '' positional arguments but '' @ str_nat (length pos)
                                   @ '' were given''))
          else fill_defaults f params bound)"

datatype method_kind = PlainFunction | ClassMethod

definition call_on_instance ::
  "method_kind \<Rightarrow> string \<Rightarrow> 'v param list \<Rightarrow> 'v \<Rightarrow> 'v \<Rightarrow> 'v list \<Rightarrow> (string \<times> 'v) list
     \<Rightarrow> pyexc + (string \<times> 'v) list" where
  \<comment> \<open>\<open>self.f(pos, kws)\<close>, for \<open>self\<close> an instance of the class \<open>cls\<close>\<close>
  "call_on_instance kind f params self cls pos kws =
     bind_call f params ((case kind of PlainFunction \<Rightarrow> self | ClassMethod \<Rightarrow> cls) # pos) kws"

definition call_on_class ::
  "method_kind \<Rightarrow> string \<Rightarrow> 'v param list \<Rightarrow> 'v \<Rightarrow> 'v list \<Rightarrow> (string \<times> 'v) list
     \<Rightarrow> pyexc + (string \<times> 'v) list" where
  \<comment> \<open>\<open>Cls.f(pos, kws)\<close>\<close>
  "call_on_class kind f params cls pos kws =
     bind_call f params (case kind of PlainFunction \<Rightarrow> pos | ClassMethod \<Rightarrow> cls # pos) kws"

text \<open>The values the calls of this module pass around.\<close>

datatype pyval =
    PyNone
  | PyStr string
  | PyBool bool
  | PyObj string
    \<comment> \<open>an instance or a class, by name\<close>
  | PyTensor3 "real list list list"
    \<comment> \<open>a tensor of shape [batch, sequence, hidden]\<close>
  | PyTensor2 "real list list"
  | PyMask "int list list"
    \<comment> \<open>an integer tensor of shape [batch, sequence]\<close>

section \<open>\<open>DefaultEmbedding.__init__\<close>\<close>

text \<open>
  \<open>download_file_from_gcs(url, output_path, show_progress=True)\<close> and
  \<open>decompress_to_cache(targz_path, cache_dir=None)\<close> are written without \<open>self\<close> and
  without a decorator: plain functions in the class body.
\<close>

definition download_file_from_gcs_params :: "pyval param list" where
  "download_file_from_gcs_params =
     [Required ''url'', Required ''output_path'', Optional ''show_progress'' (PyBool True)]"

definition decompress_to_cache_params :: "pyval param list" where
  "decompress_to_cache_params = [Required ''targz_path'', Optional ''cache_dir'' PyNone]"

text \<open>
  The two function bodies on bound arguments. The bodies above are modelled at the types
  they are written for (strings, a boolean, an optional string); on arguments of another
  type the body is not modelled and the call is given as a \<open>TypeError\<close>, which is what
  \<open>os.path.exists\<close> and \<open>os.path.isfile\<close> raise on an object that is no path.
\<close>

definition run_download_file_from_gcs ::
  "http_env \<Rightarrow> (string \<times> pyval) list \<Rightarrow> world \<Rightarrow> (pyexc + pyval) \<times> world" where
  "run_download_file_from_gcs E args w =
     (case (map_of args ''url'', map_of args ''output_path'', map_of args ''show_progress'') of
        (Some (PyStr url), Some (PyStr output_path), Some (PyBool show_progress)) \<Rightarrow>
          (case download_file_from_gcs E url output_path show_progress w of
             (Inl e, w') \<Rightarrow> (Inl e, w')
           | (Inr None, w') \<Rightarrow> (Inr PyNone, w')
           | (Inr (Some p), w') \<Rightarrow> (Inr (PyStr p), w'))
      | _ \<Rightarrow> (Inl (Exc TypeError ''stat: path should be string, bytes, os.PathLike or integer''), w))"

definition run_decompress_to_cache ::
  "archive_env \<Rightarrow> (string \<times> pyval) list \<Rightarrow> world \<Rightarrow> (pyexc + pyval) \<times> world" where
  "run_decompress_to_cache A args w =
     (case (map_of args ''targz_path'', map_of args ''cache_dir'') of
        (Some (PyStr targz_path), Some PyNone) \<Rightarrow>
          (case decompress_to_cache A targz_path None w of
             (Inl e, w') \<Rightarrow> (Inl e, w')
           | (Inr d, w') \<Rightarrow> (Inr (PyStr d), w'))
      | (Some (PyStr targz_path), Some (PyStr cache_dir)) \<Rightarrow>
          (case decompress_to_cache A targz_path (Some cache_dir) w of
             (Inl e, w') \<Rightarrow> (Inl e, w')
           | (Inr d, w') \<Rightarrow> (Inr (PyStr d), w'))
      | _ \<Rightarrow> (Inl (Exc TypeError ''stat: path should be string, bytes, os.PathLike or integer''), w))"

text \<open>
  The constructor. \<open>model_name\<close> is not used by the body. Both calls go through
  \<open>self\<close>, so the instance is the first positional argument of each.
\<close>

definition DefaultEmbedding_init ::
  "http_env \<Rightarrow> archive_env \<Rightarrow> string \<Rightarrow> string \<Rightarrow> world \<Rightarrow> (pyexc + unit) \<times> world" where
  "DefaultEmbedding_init E A self model_name w =
     (case call_on_instance PlainFunction ''download_file_from_gcs'' download_file_from_gcs_params
             (PyObj self) (PyObj ''DefaultEmbedding'')
             [PyStr ''https://storage.googleapis.com/qdrant-fastembed/fast-all-MiniLM-L6-v2.tar.gz'']
             [(''output_path'', PyStr ''fast-all-MiniLM-L6-v2.tar.gz'')] of
        Inl e \<Rightarrow> (Inl e, w)
      | Inr args \<Rightarrow>
          (case run_download_file_from_gcs E args w of
             (Inl e, w1) \<Rightarrow> (Inl e, w1)
           | (Inr filepath, w1) \<Rightarrow>
               (case call_on_instance PlainFunction ''decompress_to_cache'' decompress_to_cache_params
                       (PyObj self) (PyObj ''DefaultEmbedding'') [] [(''targz_path'', filepath)] of
                  Inl e \<Rightarrow> (Inl e, w1)
                | Inr args' \<Rightarrow>
                    (case run_decompress_to_cache A args' w1 of
                       (Inl e, w2) \<Rightarrow> (Inl e, w2)
                     | (Inr model_dir, w2) \<Rightarrow> (Inr (), w2)))))"

section \<open>The strategies that need optional libraries\<close>

text \<open>
  The libraries are collaborators whose answers are read from the environment:
  whether a module can be imported, whether loading a pretrained object raises, and what
  the loaded tokenizer, transformer and sentence-embedding model compute. A loaded object
  is known by the name it was loaded under. A tokenized batch is the pair of
  \<open>input_ids\<close> and \<open>attention_mask\<close>.
\<close>

record ml_env =
  importable :: "string \<Rightarrow> bool"
  load_error :: "event \<Rightarrow> pyexc option"
    \<comment> \<open>the exception the load recorded by this event raises, if any\<close>
  tokenize :: "string \<Rightarrow> string list \<Rightarrow> int list list \<times> int list list"
  forward :: "string \<Rightarrow> int list list \<times> int list list \<Rightarrow> real list list list"
  library_encode :: "string \<Rightarrow> string list \<Rightarrow> real list list"

subsection \<open>\<open>SentenceTransformersEmbedding\<close>\<close>

record st_embedding =
  st_model :: string

definition SentenceTransformersEmbedding_init ::
  "ml_env \<Rightarrow> string \<Rightarrow> world \<Rightarrow> (pyexc + st_embedding) \<times> world" where
  "SentenceTransformersEmbedding_init M model_name w =
     (if \<not> importable M ''sentence_transformers''
      then (Inl (Exc ImportError ''Please install the sentence-transformers package to use this method.''), w)
      else
        let w1 = emit (LoadSentenceTransformer model_name) w in
        case load_error M (LoadSentenceTransformer model_name) of
          Some e \<Rightarrow> (Inl e, w1)
        | None \<Rightarrow> (Inr \<lparr>st_model = model_name\<rparr>, w1))"

definition SentenceTransformersEmbedding_encode ::
  "ml_env \<Rightarrow> st_embedding \<Rightarrow> string list \<Rightarrow> world \<Rightarrow> (pyexc + real list list) \<times> world" where
  "SentenceTransformersEmbedding_encode M self texts w =
     (Inr (library_encode M (st_model self) texts), emit (LibraryEncode (st_model self) texts) w)"

subsection \<open>\<open>GeneralTextEmbedding\<close>\<close>

record gte_embedding =
  tokenizer :: string
  model :: string

definition GeneralTextEmbedding_init ::
  "ml_env \<Rightarrow> string \<Rightarrow> world \<Rightarrow> (pyexc + gte_embedding) \<times> world" where
  "GeneralTextEmbedding_init M model_name w =
     (if \<not> (importable M ''torch.nn.functional'' \<and> importable M ''transformers'')
      then (Inl (Exc ImportError ''Please install the transformers package with torch to use this method.''), w)
      else
        let w1 = emit (LoadTokenizer ''thenlper/gte-large'') w in
        case load_error M (LoadTokenizer ''thenlper/gte-large'') of
          Some e \<Rightarrow> (Inl e, w1)
        | None \<Rightarrow>
            let w2 = emit (LoadModel ''thenlper/gte-large'') w1 in
            case load_error M (LoadModel ''thenlper/gte-large'') of
              Some e \<Rightarrow> (Inl e, w2)
            | None \<Rightarrow> (Inr \<lparr>tokenizer = ''thenlper/gte-large'', model = ''thenlper/gte-large''\<rparr>, w2))"

text \<open>
  The tensor arithmetic of \<open>average_pool\<close> and of the end of \<open>encode\<close>, over the real
  numbers instead of floating-point numbers, on tensors given as nested lists of matching
  shape. \<open>masked_fill\<close> puts 0 wherever the mask is 0; \<open>sum(dim=1)\<close> adds the token
  vectors of a sequence, and the entries of a mask row. Where a mask row sums to 0 the
  quotient of the source has no finite entries in that row: the result is \<open>None\<close> then.
\<close>

definition masked_fill :: "real list list list \<Rightarrow> int list list \<Rightarrow> real list list list" where
  \<comment> \<open>\<open>last_hidden_states.masked_fill(~attention_mask[..., None].bool(), 0.0)\<close>\<close>
  "masked_fill last_hidden_states attention_mask =
     map2 (\<lambda>tokens row. map2 (\<lambda>v a. if a = 0 then map (\<lambda>x. 0) v else v) tokens row)
       last_hidden_states attention_mask"

definition sum_dim1 :: "real list list \<Rightarrow> real list" where
  "sum_dim1 tokens = (case tokens of [] \<Rightarrow> [] | v # vs \<Rightarrow> foldl (map2 (+)) v vs)"

definition average_pool :: "real list list list \<Rightarrow> int list list \<Rightarrow> real list list option" where
  "average_pool last_hidden_states attention_mask =
     (let last_hidden = masked_fill last_hidden_states attention_mask
      in if list_ex (\<lambda>row. sum_list row = 0) attention_mask then None
         else Some (map2 (\<lambda>s c. map (\<lambda>x. x / real_of_int c) s)
                      (map sum_dim1 last_hidden) (map sum_list attention_mask)))"

text \<open>
  The function is declared \<open>@classmethod\<close> with the two parameters
  \<open>last_hidden_states\<close> and \<open>attention_mask\<close>, and no \<open>cls\<close>. When the class arrives
  in \<open>last_hidden_states\<close>, the body fails at \<open>last_hidden_states.masked_fill\<close>.
\<close>

definition average_pool_params :: "pyval param list" where
  "average_pool_params = [Required ''last_hidden_states'', Required ''attention_mask'']"

definition run_average_pool :: "(string \<times> pyval) list \<Rightarrow> pyexc + real list list option" where
  "run_average_pool args =
     (case (map_of args ''last_hidden_states'', map_of args ''attention_mask'') of
        (Some (PyTensor3 h), Some (PyMask m)) \<Rightarrow> Inr (average_pool h m)
      | _ \<Rightarrow> Inl (Exc AttributeError ''object has no attribute masked_fill''))"

definition l2_normalize :: "real list \<Rightarrow> real list" where
  \<comment> \<open>one row of \<open>F.normalize(embeddings, p=2, dim=1)\<close>, whose \<open>eps\<close> is \<open>1e-12\<close>\<close>
  "l2_normalize v = map (\<lambda>x. x / max (sqrt (sum_list (map (\<lambda>y. y * y) v))) (1 / 10 ^ 12)) v"

definition dot :: "real list \<Rightarrow> real list \<Rightarrow> real" where
  "dot u v = sum_list (map2 (*) u v)"

definition similarity_scores :: "real list list \<Rightarrow> real list list" where
  \<comment> \<open>\<open>(embeddings[:1] @ embeddings[1:].T) * 100\<close>\<close>
  "similarity_scores embeddings =
     map (\<lambda>q. map (\<lambda>d. dot q d * 100) (drop 1 embeddings)) (take 1 embeddings)"

text \<open>
  \<open>encode\<close>. The result \<open>Inr None\<close> stands for a score tensor without finite entries.
\<close>

definition GeneralTextEmbedding_encode ::
  "ml_env \<Rightarrow> gte_embedding \<Rightarrow> string list \<Rightarrow> world \<Rightarrow> (pyexc + real list list option) \<times> world" where
  "GeneralTextEmbedding_encode M self input_texts w =
     (if \<not> importable M ''torch.nn.functional''
      then (Inl (Exc ImportError ''Please install Pytorch to use this method.''), w)
      else
        let w1 = emit (Tokenize (tokenizer self) input_texts) w;
            batch_dict = tokenize M (tokenizer self) input_texts;
            w2 = emit (Forward (model self)) w1;
            last_hidden_state = forward M (model self) batch_dict
        in case call_on_class ClassMethod ''average_pool'' average_pool_params
                  (PyObj ''GeneralTextEmbedding'')
                  [PyTensor3 last_hidden_state, PyMask (snd batch_dict)] [] of
             Inl e \<Rightarrow> (Inl e, w2)
           | Inr args \<Rightarrow>
               (case run_average_pool args of
                  Inl e \<Rightarrow> (Inl e, w2)
                | Inr None \<Rightarrow> (Inr None, w2)
                | Inr (Some embeddings) \<Rightarrow>
                    (Inr (Some (similarity_scores (map l2_normalize embeddings))), w2)))"

section \<open>Notions used to state the properties\<close>

text \<open>
  The exception that leaves the streaming loop is the first \<open>Raise\<close> of the response
  body; the exception raised inside the \<open>try\<close> block is the one of \<open>open\<close>, or else
  that one. \<open>stream_trace\<close> lists the progress updates of the loop, and \<open>new_events\<close>
  what a call has added to the trace.
\<close>


fun first_raise :: "stream_event list \<Rightarrow> pyexc option" where
  "first_raise [] = None"
| "first_raise (Raise e # es) = Some e"
| "first_raise (Chunk c # es) = first_raise es"


fun stream_trace :: "bool \<Rightarrow> stream_event list \<Rightarrow> event list" where
  "stream_trace bar [] = []"
| "stream_trace bar (Raise e # es) = []"
| "stream_trace bar (Chunk c # es) =
     (if c \<noteq> [] \<and> bar then BarUpdate (length c) # stream_trace bar es else stream_trace bar es)"

definition new_events :: "world \<Rightarrow> world \<Rightarrow> event list" where
  "new_events w w' = drop (length (trace w)) (trace w')"

text \<open>Concrete inputs.\<close>

definition empty_world :: world where
  "empty_world = \<lparr>fs = Map.empty, trace = []\<rparr>"

definition archive_world :: world where
  "archive_world = \<lparr>fs = [''fast-all-MiniLM-L6-v2.tar.gz'' \<mapsto> File ''bytes''], trace = []\<rparr>"

definition server :: "int \<Rightarrow> header \<Rightarrow> stream_event list \<Rightarrow> http_env" where
  "server code len chunks =
     \<lparr>get = (\<lambda>url. Inr \<lparr>status_code = code, content_length = len, body = chunks\<rparr>),
      open_wb = (\<lambda>p. None)\<rparr>"

definition invalid_input_world :: world where
  "invalid_input_world =
     \<lparr>fs = [''model.zip'' \<mapsto> File ''PK'', ''models.tar.gz'' \<mapsto> Dir], trace = []\<rparr>"

text \<open>
  An archive file that is no gzip-compressed tar, next to a cache directory of the
  caller's that holds a file.
\<close>

definition broken_archive :: archive_env where
  "broken_archive =
     \<lparr>untar = (\<lambda>bytes. ([], Some (Exc TarError ''not a gzip file''))),
      gettempdir = ''/tmp'', candidate_names = [''k3x9q2vd'']\<rparr>"

definition supplied_cache_world :: world where
  "supplied_cache_world =
     \<lparr>fs = [''model.tar.gz'' \<mapsto> File ''junk'',
             ''/data/tmp_cache'' \<mapsto> Dir,
             ''/data/tmp_cache/keep.bin'' \<mapsto> File ''kept''],
      trace = []\<rparr>"

text \<open>An installation without the optional libraries, and one with all of them.\<close>

definition nothing_installed :: ml_env where
  "nothing_installed =
     \<lparr>importable = (\<lambda>m. False), load_error = (\<lambda>ev. None),
      tokenize = (\<lambda>name texts. ([], [])), forward = (\<lambda>name batch. []),
      library_encode = (\<lambda>name texts. [])\<rparr>"

definition all_installed :: ml_env where
  "all_installed =
     \<lparr>importable = (\<lambda>m. True), load_error = (\<lambda>ev. None),
      tokenize = (\<lambda>name texts. (map (\<lambda>t. [101, 102]) texts, map (\<lambda>t. [1, 1]) texts)),
      forward = (\<lambda>name batch. map (map (\<lambda>i. [1, 0])) (fst batch)),
      library_encode = (\<lambda>name texts. map (\<lambda>t. [real (length t)]) texts)\<rparr>"

text \<open>The events that load a tokenizer or a model.\<close>

fun is_load :: "event \<Rightarrow> bool" where
  "is_load (LoadTokenizer n) = True"
| "is_load (LoadModel n) = True"
| "is_load (LoadSentenceTransformer n) = True"
| "is_load _ = False"

text \<open>
  The mean of the token vectors of a sequence whose mask entry is not 0, for token
  vectors of length \<open>n\<close>; and the shape of a sequence and its mask row for which it is
  defined: as many tokens as mask entries, token vectors of length \<open>n\<close>, mask entries 0
  or 1, at least one of them 1.
\<close>

definition kept_tokens :: "real list list \<Rightarrow> int list \<Rightarrow> real list list" where
  "kept_tokens tokens row = map fst (filter (\<lambda>(v, a). a \<noteq> 0) (zip tokens row))"

definition vec_sum :: "nat \<Rightarrow> real list list \<Rightarrow> real list" where
  "vec_sum n vs = foldl (map2 (+)) (replicate n 0) vs"

definition masked_mean :: "nat \<Rightarrow> real list list \<Rightarrow> int list \<Rightarrow> real list" where
  "masked_mean n tokens row =
     map (\<lambda>x. x / real (length (kept_tokens tokens row))) (vec_sum n (kept_tokens tokens row))"

definition well_shaped :: "nat \<Rightarrow> real list list \<Rightarrow> int list \<Rightarrow> bool" where
  "well_shaped n tokens row =
     (length tokens = length row \<and> list_all (\<lambda>v. length v = n) tokens
      \<and> list_all (\<lambda>a. a = 0 \<or> a = 1) row \<and> list_ex (\<lambda>a. a = 1) row)"

section \<open>Properties of the artifact fetcher\<close>

lemma stream_body_result: "fst (stream_body bar p es w) = first_raise es"
  by (induction bar p es w rule: stream_body.induct) auto

lemma stream_body_trace: "trace (snd (stream_body bar p es w)) = trace w @ stream_trace bar es"
  by (induction bar p es w rule: stream_body.induct) (auto simp: emit_def write_chunk_def)

lemma attempt_download_trace:
  "trace (snd (attempt_download E bar p es w)) =
     trace w @ (case open_wb E p of Some e \<Rightarrow> [] | None \<Rightarrow> stream_trace bar es)
           @ (case (case open_wb E p of Some e \<Rightarrow> Some e | None \<Rightarrow> first_raise es) of
                None \<Rightarrow> [] 
              | Some e \<Rightarrow> if is_Exception e then [Print (''An error occurred while trying to download the file: '' @ exc_str e)] else [])
           @ (if bar then [BarClose] else [])"
proof (cases "open_wb E p")
  case None
  obtain r w' where sb: "stream_body bar p es (create_file p w) = (r, w')"
    by (cases "stream_body bar p es (create_file p w)")
  have r: "r = first_raise es" using stream_body_result[of bar p es "create_file p w"] sb by simp
  have l: "trace w' = trace w @ stream_trace bar es"
    using stream_body_trace[of bar p es "create_file p w"] sb by (simp add: create_file_def)
  show ?thesis using None sb r l
    by (auto simp: attempt_download_def close_bar_def emit_def split: option.splits)
next
  case (Some e)
  then show ?thesis
    by (auto simp: attempt_download_def close_bar_def emit_def)
qed



lemma download_trace_extends:
  "trace (snd (download_file_from_gcs E url output_path show_progress w)) =
     trace w @ new_events w (snd (download_file_from_gcs E url output_path show_progress w))"
  by (auto simp: download_file_from_gcs_def Let_def emit_def attempt_download_trace new_events_def
        split: sum.splits)

text \<open>
  Claim C1. When a file or directory already exists at the destination path, the fetch
  returns that path and leaves the world as it was: nothing is added to the trace (no
  HTTP request) and the file system is unchanged. A second call from the resulting world
  returns the same path, again with no request.
\<close>
theorem fetch_existing_destination:
  assumes "path_exists w output_path"
  shows "download_file_from_gcs E url output_path show_progress w = (Inr (Some output_path), w)
       \<and> download_file_from_gcs E url output_path show_progress
           (snd (download_file_from_gcs E url output_path show_progress w))
         = (Inr (Some output_path), w)"
  using assms by (simp add: download_file_from_gcs_def)

theorem fetch_existing_destination_witness:
  "path_exists archive_world ''fast-all-MiniLM-L6-v2.tar.gz''
   \<and> download_file_from_gcs (server 200 NoHeader []) ''https://example.org/m.tar.gz''
        ''fast-all-MiniLM-L6-v2.tar.gz'' True archive_world
      = (Inr (Some ''fast-all-MiniLM-L6-v2.tar.gz''), archive_world)"
proof -
  have h: "path_exists archive_world ''fast-all-MiniLM-L6-v2.tar.gz''"
    by (simp add: path_exists_def archive_world_def)
  show ?thesis
    using h fetch_existing_destination [OF h, of "server 200 NoHeader []" "''https://example.org/m.tar.gz''" True]
    by simp
qed

text \<open>
  Claim C5. When the destination does not exist yet and the response to the GET has a
  status other than 200, the fetch returns nothing instead of raising, the file system is
  unchanged, and what it has done is the request and one printed line: the
  authentication message for status 403, the generic HTTP error message otherwise.
\<close>
theorem fetch_http_error_status:
  assumes "\<not> path_exists w output_path" and "get E url = Inr r" and "status_code r \<noteq> 200"
  shows "fst (download_file_from_gcs E url output_path show_progress w) = Inr None
       \<and> fs (snd (download_file_from_gcs E url output_path show_progress w)) = fs w
       \<and> new_events w (snd (download_file_from_gcs E url output_path show_progress w)) =
           [HttpGet url,
            Print (if status_code r = 403
                   then ''Authentication error: you do not have permission to access this resource.''
                   else ''HTTP error '' @ str_int (status_code r) @ '' while trying to download the file.'')]"
  using assms by (simp add: download_file_from_gcs_def emit_def Let_def new_events_def)

theorem fetch_http_error_status_witness:
  "\<not> path_exists empty_world ''m.tar.gz''
   \<and> fst (download_file_from_gcs (server 403 NoHeader [Chunk ''x'']) ''u'' ''m.tar.gz'' True empty_world) = Inr None
   \<and> fs (snd (download_file_from_gcs (server 403 NoHeader [Chunk ''x'']) ''u'' ''m.tar.gz'' True empty_world)) ''m.tar.gz'' = None
   \<and> fst (download_file_from_gcs (server 404 NoHeader [Chunk ''x'']) ''u'' ''m.tar.gz'' True empty_world) = Inr None
   \<and> new_events empty_world (snd (download_file_from_gcs (server 404 NoHeader [Chunk ''x'']) ''u'' ''m.tar.gz'' True empty_world))
       = [HttpGet ''u'', Print ''HTTP error 404 while trying to download the file.'']"
proof -
  have h: "\<not> path_exists empty_world ''m.tar.gz''"
    by (simp add: path_exists_def empty_world_def)
  have g3: "get (server 403 NoHeader [Chunk ''x'']) ''u'' = Inr \<lparr>status_code = 403, content_length = NoHeader, body = [Chunk ''x'']\<rparr>"
    by (simp add: server_def)
  have g4: "get (server 404 NoHeader [Chunk ''x'']) ''u'' = Inr \<lparr>status_code = 404, content_length = NoHeader, body = [Chunk ''x'']\<rparr>"
    by (simp add: server_def)
  have s: "str_int 404 = ''404''" by (simp add: str_int_def digit_def)
  show ?thesis
    using h fetch_http_error_status [OF h g3, of True] fetch_http_error_status [OF h g4, of True] s
    by (simp add: empty_world_def)
qed




section \<open>Properties of the archive cache\<close>

text \<open>
  Claim C4. When the archive path does not exist, is a directory, or does not end in
  \<open>.tar.gz\<close>, the call raises \<open>ValueError\<close> and the world is as before: no directory
  is created and nothing is written, deleted or printed.
\<close>

theorem decompress_invalid_input:
  assumes "fs w targz_path = None \<or> fs w targz_path = Some Dir \<or> \<not> suffix ''.tar.gz'' targz_path"
  shows "decompress_to_cache A targz_path cache_dir w =
           (Inl (Exc ValueError
                   (targz_path @ (if isfile w targz_path then '' is not a .tar.gz file.''
                                  else '' does not exist or is not a file.''))), w)"
  using assms by (auto simp: decompress_to_cache_def isfile_def)

theorem decompress_invalid_input_witness:
  "fs invalid_input_world ''missing.tar.gz'' = None
   \<and> decompress_to_cache broken_archive ''missing.tar.gz'' None invalid_input_world
       = (Inl (Exc ValueError ''missing.tar.gz does not exist or is not a file.''), invalid_input_world)
   \<and> fs invalid_input_world ''models.tar.gz'' = Some Dir
   \<and> decompress_to_cache broken_archive ''models.tar.gz'' None invalid_input_world
       = (Inl (Exc ValueError ''models.tar.gz does not exist or is not a file.''), invalid_input_world)
   \<and> isfile invalid_input_world ''model.zip''
   \<and> decompress_to_cache broken_archive ''model.zip'' (Some ''cache'') invalid_input_world
       = (Inl (Exc ValueError ''model.zip is not a .tar.gz file.''), invalid_input_world)"
proof -
  have a: "fs invalid_input_world ''missing.tar.gz'' = None"
    by (simp add: invalid_input_world_def)
  have b: "fs invalid_input_world ''models.tar.gz'' = Some Dir"
    by (simp add: invalid_input_world_def)
  have c: "\<not> suffix ''.tar.gz'' ''model.zip''"
    by (simp add: suffix_to_prefix)
  have f: "isfile invalid_input_world ''model.zip''"
    by (simp add: invalid_input_world_def isfile_def)
  have nf: "\<not> isfile invalid_input_world ''missing.tar.gz''" "\<not> isfile invalid_input_world ''models.tar.gz''"
    by (simp_all add: invalid_input_world_def isfile_def)
  show ?thesis
    using a b f nf
      decompress_invalid_input [of invalid_input_world "''missing.tar.gz''" broken_archive None]
      decompress_invalid_input [of invalid_input_world "''models.tar.gz''" broken_archive None]
      decompress_invalid_input [of invalid_input_world "''model.zip''" broken_archive "Some ''cache''"] c
    by simp
qed

text \<open>
  What a failed extraction leaves behind. The directory \<open>mkdtemp\<close> allocates always has
  \<open>tmp\<close> in its name, so a \<open>TarError\<close> removes it (as long as no member of the archive
  has replaced the directory itself). A directory the caller supplies is kept when its
  path does not contain \<open>tmp\<close>, and removed when it does. An exception that is no
  \<open>TarError\<close> leaves the handler out: nothing is removed and the exception is not wrapped.
\<close>

lemma sublist_tmp_path_join: "sublist ''tmp'' (path_join dir (''tmp'' @ name))"
proof -
  have "sublist ''tmp'' (dir @ ''tmp'' @ name)" and "sublist ''tmp'' ((dir @ ''/'') @ ''tmp'' @ name)"
    unfolding sublist_def by blast+
  then show ?thesis by (simp add: path_join_def)
qed

lemma mkdtemp_names_result:
  "mkdtemp_names dir names w = (Inr d, w1) \<Longrightarrow>
     sublist ''tmp'' d \<and> fs w d = None \<and> w1 = w\<lparr>fs := (fs w)(d \<mapsto> Dir)\<rparr>"
proof (induction names)
  case Nil
  then show ?case by simp
next
  case (Cons name names)
  show ?case
  proof (cases "path_exists w (path_join dir (''tmp'' @ name))")
    case True
    with Cons show ?thesis by (simp add: Let_def)
  next
    case False
    with Cons.prems have d: "d = path_join dir (''tmp'' @ name)"
      and w1: "w1 = w\<lparr>fs := (fs w)(d \<mapsto> Dir)\<rparr>"
      by (auto simp: Let_def)
    from False d have n: "fs w d = None" by (simp add: path_exists_def)
    have t: "sublist ''tmp'' d" unfolding d by (rule sublist_tmp_path_join)
    from t n w1 show ?thesis by blast
  qed
qed

lemma extract_members_keep_dir:
  "fs w d = Some Dir \<Longrightarrow> \<forall>m \<in> set members. path_join d (fst m) \<noteq> d \<Longrightarrow>
     fs (fold (extract_member d) members w) d = Some Dir"
proof (induction members arbitrary: w)
  case Nil
  then show ?case by simp
next
  case (Cons m members)
  have "fs (extract_member d m w) d = Some Dir"
    using Cons.prems by (auto simp: extract_member_def path_exists_def)
  with Cons show ?case by simp
qed

lemma rmtree_directory:
  "fs w d = Some Dir \<Longrightarrow> rmtree d w = (None, w\<lparr>fs := (\<lambda>p. if inside d p then None else fs w p)\<rparr>)"
  by (simp add: rmtree_def)

lemma decompress_failure_auto_allocated:
  assumes isf: "isfile w targz_path" and ext: "suffix ''.tar.gz'' targz_path"
    and tmp: "mkdtemp A w = (Inr d, w1)"
    and tar: "untar A (file_bytes (fs w targz_path)) = (members, Some e)" and e: "is_TarError e"
    and benign: "\<forall>m \<in> set members. path_join d (fst m) \<noteq> d"
  shows "fst (decompress_to_cache A targz_path None w) =
           Inl (Exc ValueError (''An error occurred while decompressing '' @ targz_path @ '': '' @ exc_str e))"
    and "inside d q \<Longrightarrow> fs (snd (decompress_to_cache A targz_path None w)) q = None"
proof -
  from tmp have r: "sublist ''tmp'' d" "fs w d = None" "w1 = w\<lparr>fs := (fs w)(d \<mapsto> Dir)\<rparr>"
    using mkdtemp_names_result[of "gettempdir A" "candidate_names A" w d w1]
    by (simp_all add: mkdtemp_def)
  from isf r(2) have ne: "d \<noteq> targz_path" by (auto simp: isfile_def)
  with r(3) have same: "fs w1 targz_path = fs w targz_path" by simp
  let ?w2 = "fold (extract_member d) members w1"
  have x: "extractall A targz_path d w1 = (Some e, ?w2)"
    using tar same by (simp add: extractall_def)
  have "fs w1 d = Some Dir" using r(3) by simp
  then have "fs ?w2 d = Some Dir" using benign by (rule extract_members_keep_dir)
  then have rm: "rmtree d ?w2 = (None, ?w2\<lparr>fs := (\<lambda>p. if inside d p then None else fs ?w2 p)\<rparr>)"
    by (rule rmtree_directory)
  have out: "decompress_to_cache A targz_path None w =
    (Inl (Exc ValueError (''An error occurred while decompressing '' @ targz_path @ '': '' @ exc_str e)),
     ?w2\<lparr>fs := (\<lambda>p. if inside d p then None else fs ?w2 p)\<rparr>)"
    using isf ext tmp x e r(1) rm by (simp add: decompress_to_cache_def Let_def)
  show "fst (decompress_to_cache A targz_path None w) =
           Inl (Exc ValueError (''An error occurred while decompressing '' @ targz_path @ '': '' @ exc_str e))"
    using out by simp
  show "inside d q \<Longrightarrow> fs (snd (decompress_to_cache A targz_path None w)) q = None"
    using out by simp
qed

lemma decompress_failure_supplied_without_tmp:
  assumes isf: "isfile w targz_path" and ext: "suffix ''.tar.gz'' targz_path"
    and tar: "untar A (file_bytes (fs w targz_path)) = (members, Some e)" and e: "is_TarError e"
    and no_tmp: "\<not> sublist ''tmp'' d"
  shows "decompress_to_cache A targz_path (Some d) w =
           (Inl (Exc ValueError (''An error occurred while decompressing '' @ targz_path @ '': '' @ exc_str e)),
            fold (extract_member d) members w)"
  using assms by (simp add: decompress_to_cache_def extractall_def Let_def)

lemma decompress_failure_supplied_with_tmp:
  assumes isf: "isfile w targz_path" and ext: "suffix ''.tar.gz'' targz_path"
    and tar: "untar A (file_bytes (fs w targz_path)) = (members, Some e)" and e: "is_TarError e"
    and has_tmp: "sublist ''tmp'' d" and dir: "fs w d = Some Dir"
    and benign: "\<forall>m \<in> set members. path_join d (fst m) \<noteq> d"
  shows "fs (snd (decompress_to_cache A targz_path (Some d) w)) d = None"
proof -
  let ?w2 = "fold (extract_member d) members w"
  have "fs ?w2 d = Some Dir" using dir benign by (rule extract_members_keep_dir)
  then have rm: "rmtree d ?w2 = (None, ?w2\<lparr>fs := (\<lambda>p. if inside d p then None else fs ?w2 p)\<rparr>)"
    by (rule rmtree_directory)
  show ?thesis
    using isf ext tar e has_tmp rm
    by (simp add: decompress_to_cache_def extractall_def Let_def inside_def)
qed

lemma decompress_failure_other_exception:
  assumes "isfile w targz_path" and "suffix ''.tar.gz'' targz_path"
    and "untar A (file_bytes (fs w targz_path)) = (members, Some e)" and "\<not> is_TarError e"
  shows "decompress_to_cache A targz_path (Some d) w = (Inl e, fold (extract_member d) members w)"
  using assms by (simp add: decompress_to_cache_def extractall_def)

text \<open>
  Claim C2, at an input where the code departs from it. The caller supplies the existing
  directory \<open>/data/tmp_cache\<close>, which holds a file, and the archive is no gzip file. The
  call raises the wrapped \<open>ValueError\<close>, and the caller's directory and the file in it
  are gone afterwards, because the path contains \<open>tmp\<close>.
\<close>

theorem supplied_tmp_cache_dir_deleted:
  "fst (decompress_to_cache broken_archive ''model.tar.gz'' (Some ''/data/tmp_cache'') supplied_cache_world)
     = Inl (Exc ValueError ''An error occurred while decompressing model.tar.gz: not a gzip file'')
   \<and> fs supplied_cache_world ''/data/tmp_cache'' = Some Dir
   \<and> fs (snd (decompress_to_cache broken_archive ''model.tar.gz'' (Some ''/data/tmp_cache'') supplied_cache_world))
        ''/data/tmp_cache'' = None
   \<and> fs (snd (decompress_to_cache broken_archive ''model.tar.gz'' (Some ''/data/tmp_cache'') supplied_cache_world))
        ''/data/tmp_cache/keep.bin'' = None"
  by (simp add: decompress_to_cache_def broken_archive_def supplied_cache_world_def isfile_def
        suffix_to_prefix sublist_Cons_right extractall_def rmtree_def inside_def path_join_def)

section \<open>Properties of the constructors and of \<open>encode\<close>\<close>

text \<open>
  Claim C3, which the code does not meet. For every instance, model name, environment
  and world the constructor of \<open>DefaultEmbedding\<close> raises \<open>TypeError\<close> while binding
  the arguments of its first call: the instance takes the place of \<open>url\<close>, the URL the
  place of \<open>output_path\<close>, and the keyword \<open>output_path\<close> then names a parameter that
  already has a value. The world is unchanged: no request is sent, nothing is extracted.
\<close>

theorem DefaultEmbedding_init_raises_TypeError:
  "DefaultEmbedding_init E A self model_name w =
     (Inl (Exc TypeError (''download_file_from_gcs() got multiple values for argument ''
                          @ quoted ''output_path'')), w)"
  by (simp add: DefaultEmbedding_init_def call_on_instance_def bind_call_def
        download_file_from_gcs_params_def)

text \<open>
  Claim C9. When \<open>sentence_transformers\<close> cannot be imported, constructing
  \<open>SentenceTransformersEmbedding\<close> raises \<open>ImportError\<close>, and so does constructing
  \<open>GeneralTextEmbedding\<close> when \<open>torch\<close> or \<open>transformers\<close> cannot be imported; the
  world is unchanged in both cases. After a successful construction, \<open>encode\<close> of the
  first uses the model loaded by the constructor; \<open>encode\<close> of either class loads
  nothing; and \<open>encode\<close> of the second does not fail on a missing dependency in the
  environment the instance was constructed in.
\<close>

theorem missing_dependency_fails_at_construction:
  "(\<not> importable M ''sentence_transformers'' \<longrightarrow>
      SentenceTransformersEmbedding_init M model_name w =
        (Inl (Exc ImportError ''Please install the sentence-transformers package to use this method.''), w))
   \<and> (\<not> importable M ''torch.nn.functional'' \<or> \<not> importable M ''transformers'' \<longrightarrow>
      GeneralTextEmbedding_init M model_name w =
        (Inl (Exc ImportError ''Please install the transformers package with torch to use this method.''), w))
   \<and> (SentenceTransformersEmbedding_init M model_name w = (Inr st, w') \<longrightarrow>
      SentenceTransformersEmbedding_encode M st texts w'' =
        (Inr (library_encode M model_name texts), emit (LibraryEncode model_name texts) w''))
   \<and> filter is_load (new_events w'' (snd (SentenceTransformersEmbedding_encode M st texts w''))) = []
   \<and> filter is_load (new_events w'' (snd (GeneralTextEmbedding_encode M gte texts w''))) = []
   \<and> (GeneralTextEmbedding_init M model_name w = (Inr gte, w') \<longrightarrow>
      (\<forall>msg. fst (GeneralTextEmbedding_encode M gte texts w'') \<noteq> Inl (Exc ImportError msg)))"
  by (auto simp: SentenceTransformersEmbedding_init_def GeneralTextEmbedding_init_def
        SentenceTransformersEmbedding_encode_def GeneralTextEmbedding_encode_def
        call_on_class_def bind_call_def average_pool_params_def
        new_events_def emit_def Let_def split: option.splits if_splits)

theorem missing_dependency_fails_at_construction_witness:
  "\<not> importable nothing_installed ''sentence_transformers''
   \<and> \<not> importable nothing_installed ''torch.nn.functional''
   \<and> SentenceTransformersEmbedding_init nothing_installed ''sentence-transformers/all-MiniLM-L6-v2'' empty_world
       = (Inl (Exc ImportError ''Please install the sentence-transformers package to use this method.''), empty_world)
   \<and> GeneralTextEmbedding_init nothing_installed ''thenlper/gte-large'' empty_world
       = (Inl (Exc ImportError ''Please install the transformers package with torch to use this method.''), empty_world)
   \<and> SentenceTransformersEmbedding_init all_installed ''all-MiniLM-L6-v2'' empty_world
       = (Inr \<lparr>st_model = ''all-MiniLM-L6-v2''\<rparr>, emit (LoadSentenceTransformer ''all-MiniLM-L6-v2'') empty_world)
   \<and> SentenceTransformersEmbedding_encode all_installed \<lparr>st_model = ''all-MiniLM-L6-v2''\<rparr> [''ab''] empty_world
       = (Inr [[2]], emit (LibraryEncode ''all-MiniLM-L6-v2'' [''ab'']) empty_world)
   \<and> GeneralTextEmbedding_init all_installed ''thenlper/gte-large'' empty_world
       = (Inr \<lparr>tokenizer = ''thenlper/gte-large'', model = ''thenlper/gte-large''\<rparr>,
          emit (LoadModel ''thenlper/gte-large'') (emit (LoadTokenizer ''thenlper/gte-large'') empty_world))
   \<and> fst (GeneralTextEmbedding_encode all_installed
             \<lparr>tokenizer = ''thenlper/gte-large'', model = ''thenlper/gte-large''\<rparr> [''ab''] empty_world)
       \<noteq> Inl (Exc ImportError ''Please install Pytorch to use this method.'')"
proof -
  let ?st = "\<lparr>st_model = ''all-MiniLM-L6-v2''\<rparr>"
  let ?gte = "\<lparr>tokenizer = ''thenlper/gte-large'', model = ''thenlper/gte-large''\<rparr>"
  have n1: "\<not> importable nothing_installed ''sentence_transformers''"
    and n2: "\<not> importable nothing_installed ''torch.nn.functional''"
    by (simp_all add: nothing_installed_def)
  have i1: "SentenceTransformersEmbedding_init all_installed ''all-MiniLM-L6-v2'' empty_world
       = (Inr ?st, emit (LoadSentenceTransformer ''all-MiniLM-L6-v2'') empty_world)"
    by (simp add: SentenceTransformersEmbedding_init_def all_installed_def)
  have i2: "GeneralTextEmbedding_init all_installed ''thenlper/gte-large'' empty_world
       = (Inr ?gte, emit (LoadModel ''thenlper/gte-large'') (emit (LoadTokenizer ''thenlper/gte-large'') empty_world))"
    by (simp add: GeneralTextEmbedding_init_def all_installed_def)
  have l: "library_encode all_installed ''all-MiniLM-L6-v2'' [''ab''] = [[2]]"
    by (simp add: all_installed_def)
  note a = missing_dependency_fails_at_construction
             [where M = nothing_installed and model_name = "''sentence-transformers/all-MiniLM-L6-v2''"
                and w = empty_world]
  note b = missing_dependency_fails_at_construction
             [where M = nothing_installed and model_name = "''thenlper/gte-large''" and w = empty_world]
  note c = missing_dependency_fails_at_construction
             [where M = all_installed and model_name = "''all-MiniLM-L6-v2''" and w = empty_world
                and st = ?st and w' = "emit (LoadSentenceTransformer ''all-MiniLM-L6-v2'') empty_world"
                and texts = "[''ab'']" and w'' = empty_world]
  note d = missing_dependency_fails_at_construction
             [where M = all_installed and model_name = "''thenlper/gte-large''" and w = empty_world
                and gte = ?gte
                and w' = "emit (LoadModel ''thenlper/gte-large'') (emit (LoadTokenizer ''thenlper/gte-large'') empty_world)"
                and texts = "[''ab'']" and w'' = empty_world]
  show ?thesis
    using n1 n2 i1 i2 l a b c d by simp
qed

text \<open>
  Claim C10, which the code does not meet. The constructor of \<open>GeneralTextEmbedding\<close>
  does not read \<open>model_name\<close>: it does what it does for \<open>thenlper/gte-large\<close>, whatever
  the argument. Asked for \<open>thenlper/gte-base\<close>, it loads the tokenizer and the model
  \<open>thenlper/gte-large\<close>. The constructor of \<open>SentenceTransformersEmbedding\<close> loads the
  model it is asked for.
\<close>

theorem GeneralTextEmbedding_init_ignores_model_name:
  "GeneralTextEmbedding_init M model_name w = GeneralTextEmbedding_init M ''thenlper/gte-large'' w
   \<and> fst (GeneralTextEmbedding_init all_installed ''thenlper/gte-base'' empty_world)
       = Inr \<lparr>tokenizer = ''thenlper/gte-large'', model = ''thenlper/gte-large''\<rparr>
   \<and> trace (snd (GeneralTextEmbedding_init all_installed ''thenlper/gte-base'' empty_world))
       = [LoadTokenizer ''thenlper/gte-large'', LoadModel ''thenlper/gte-large'']"
  by (simp add: GeneralTextEmbedding_init_def all_installed_def empty_world_def emit_def Let_def)

lemma SentenceTransformersEmbedding_init_loads_named_model:
  "importable M ''sentence_transformers'' \<Longrightarrow>
   new_events w (snd (SentenceTransformersEmbedding_init M model_name w)) = [LoadSentenceTransformer model_name]"
  by (simp add: SentenceTransformersEmbedding_init_def new_events_def emit_def Let_def split: option.splits)

section \<open>Masked mean pooling and the similarity scores\<close>

text \<open>
  The arithmetic of \<open>average_pool\<close> is the masked mean: for a batch of well-shaped
  sequences it returns, for each sequence, the sum of the token vectors that are not
  padding divided by their number.
\<close>

lemma map2_add_zero_left: "length v = n \<Longrightarrow> map2 (+) (replicate n (0::real)) v = v"
  by (induction v arbitrary: n) auto

lemma map2_add_zero_right: "length acc = length v \<Longrightarrow> map2 (+) acc (map (\<lambda>x. 0::real) v) = acc"
  by (induction acc v rule: list_induct2) auto

lemma sum_dim1_vec_sum:
  "tokens \<noteq> [] \<Longrightarrow> length (hd tokens) = n \<Longrightarrow> sum_dim1 tokens = vec_sum n tokens"
  by (cases tokens) (simp_all add: sum_dim1_def vec_sum_def map2_add_zero_left)

lemma foldl_masked:
  "length tokens = length row \<Longrightarrow> list_all (\<lambda>v. length v = length acc) tokens \<Longrightarrow>
   foldl (map2 (+)) acc (map2 (\<lambda>v a. if a = 0 then map (\<lambda>x. 0) v else v) tokens row)
     = foldl (map2 (+)) acc (kept_tokens tokens (row::int list))"
proof (induction tokens row arbitrary: acc rule: list_induct2)
  case Nil
  then show ?case by (simp add: kept_tokens_def)
next
  case (Cons v tokens a row)
  from Cons.prems have lv: "length v = length acc" and rest: "list_all (\<lambda>v. length v = length acc) tokens"
    by simp_all
  show ?case
  proof (cases "a = 0")
    case True
    have "map2 (+) acc (map (\<lambda>x. 0) v) = acc" using lv by (simp add: map2_add_zero_right)
    with True Cons.IH[OF rest] show ?thesis by (simp add: kept_tokens_def)
  next
    case False
    have "length (map2 (+) acc v) = length acc" using lv by simp
    with rest have "list_all (\<lambda>u. length u = length (map2 (+) acc v)) tokens" by simp
    from Cons.IH[OF this] False show ?thesis by (simp add: kept_tokens_def)
  qed
qed

lemma sum_list_mask:
  "length tokens = length row \<Longrightarrow> list_all (\<lambda>a. a = 0 \<or> a = 1) row \<Longrightarrow>
     sum_list row = int (length (kept_tokens tokens row))"
  by (induction tokens row rule: list_induct2) (auto simp: kept_tokens_def)

lemma pooled_row:
  assumes "well_shaped n tokens row"
  shows "map (\<lambda>x. x / real_of_int (sum_list row))
           (sum_dim1 (map2 (\<lambda>v a. if a = 0 then map (\<lambda>x. 0) v else v) tokens row))
         = masked_mean n tokens row"
    and "sum_list row \<noteq> 0"
proof -
  let ?masked = "map2 (\<lambda>v a. if a = 0 then map (\<lambda>x. 0) v else v) tokens row"
  from assms have len: "length tokens = length row" and shape: "list_all (\<lambda>v. length v = n) tokens"
    and bits: "list_all (\<lambda>a. a = 0 \<or> a = 1) row" and one: "list_ex (\<lambda>a. a = 1) row"
    by (simp_all add: well_shaped_def)
  from one have "row \<noteq> []" by auto
  with len obtain v vs a as where tk: "tokens = v # vs" and rw: "row = a # as"
    by (cases tokens; cases row) auto
  have ne: "?masked \<noteq> []" using tk rw by simp
  have hdlen: "length (hd ?masked) = n" using tk rw shape by simp
  have s1: "sum_dim1 ?masked = vec_sum n ?masked" using ne hdlen by (rule sum_dim1_vec_sum)
  have s2: "vec_sum n ?masked = vec_sum n (kept_tokens tokens row)"
    unfolding vec_sum_def using len shape by (intro foldl_masked) simp_all
  have c: "sum_list row = int (length (kept_tokens tokens row))"
    using len bits by (rule sum_list_mask)
  show "map (\<lambda>x. x / real_of_int (sum_list row)) (sum_dim1 ?masked) = masked_mean n tokens row"
    by (simp add: s1 s2 c masked_mean_def)
  have "1 \<le> sum_list row"
    using one bits
  proof (induction row)
    case Nil then show ?case by simp
  next
    case (Cons a row)
    have "0 \<le> sum_list row" using Cons.prems(2) by (induction row) auto
    with Cons show ?case by auto
  qed
  then show "sum_list row \<noteq> 0" by simp
qed

lemma average_pool_masked_mean:
  assumes "length h = length m" and "list_all (\<lambda>(tokens, row). well_shaped n tokens row) (zip h m)"
  shows "average_pool h m = Some (map2 (masked_mean n) h m)"
proof -
  have nz: "\<not> list_ex (\<lambda>row. sum_list row = 0) m"
    using assms
  proof (induction h m rule: list_induct2)
    case Nil then show ?case by simp
  next
    case (Cons tokens h row m)
    then show ?case using pooled_row(2)[of n tokens row] by simp
  qed
  have eq: "map2 (\<lambda>s c. map (\<lambda>x. x / real_of_int c) s) (map sum_dim1 (masked_fill h m)) (map sum_list m)
          = map2 (masked_mean n) h m"
    using assms
  proof (induction h m rule: list_induct2)
    case Nil then show ?case by (simp add: masked_fill_def)
  next
    case (Cons tokens h row m)
    then show ?case using pooled_row(1)[of n tokens row] by (simp add: masked_fill_def)
  qed
  show ?thesis using nz eq by (simp add: average_pool_def Let_def)
qed

lemma average_pool_example:
  "average_pool [[[1, 2], [3, 4]], [[5, 6], [100, 200]]] [[1, 1], [1, 0]] = Some [[2, 3], [5, 6]]"
  by (simp add: average_pool_def masked_fill_def sum_dim1_def)

text \<open>
  Claim C7, which the code does not meet. \<open>average_pool\<close> is a \<open>classmethod\<close> with two
  parameters, so a call with a tensor and a mask passes three positional arguments (the
  class first) and raises \<open>TypeError\<close> before the body runs.
\<close>

theorem average_pool_call_raises_TypeError:
  "call_on_class ClassMethod ''average_pool'' average_pool_params cls [h, m] []
     = Inl (Exc TypeError ''average_pool() takes 2 positional arguments but 3 were given'')"
  by (simp add: call_on_class_def bind_call_def average_pool_params_def digit_def)

text \<open>
  The end of \<open>encode\<close> on two identical embeddings whose norm is not below \<open>eps\<close>: after
  normalisation the score is 100.
\<close>

lemma dot_scaled: "dot (map (\<lambda>x. x / c) v) (map (\<lambda>x. x / c) v) = sum_list (map (\<lambda>y. y * y) v) / (c * c)"
proof -
  have "sum_list (map2 (*) (map (\<lambda>x. x / c) v) (map (\<lambda>x. x / c) v)) = sum_list (map (\<lambda>y. y * y) v) / (c * c)"
    by (induction v) (simp_all add: add_divide_distrib)
  then show ?thesis by (simp add: dot_def)
qed

lemma dot_l2_normalize:
  assumes "1 / 10 ^ 12 \<le> sqrt (sum_list (map (\<lambda>y. y * y) v))"
  shows "dot (l2_normalize v) (l2_normalize v) = 1"
proof -
  let ?s = "sum_list (map (\<lambda>y. y * y) v)"
  have pos: "0 < sqrt ?s" using assms by (smt (verit) divide_pos_pos zero_less_power)
  then have s: "0 < ?s" by simp
  have m: "max (sqrt ?s) (1 / 10 ^ 12) = sqrt ?s" using assms by simp
  have "dot (l2_normalize v) (l2_normalize v) = ?s / (sqrt ?s * sqrt ?s)"
    unfolding l2_normalize_def m by (rule dot_scaled)
  also have "\<dots> = 1" using s by simp
  finally show ?thesis .
qed

lemma identical_embeddings_score_100:
  assumes "1 / 10 ^ 12 \<le> sqrt (sum_list (map (\<lambda>y. y * y) v))"
  shows "similarity_scores (map l2_normalize [v, v]) = [[100]]"
  using dot_l2_normalize[OF assms] by (simp add: similarity_scores_def)

text \<open>
  Claim C8, which the code does not meet. \<open>encode\<close> of \<open>GeneralTextEmbedding\<close> never
  returns scores: with \<open>torch\<close> importable it raises the \<open>TypeError\<close> of its call of
  \<open>average_pool\<close>, for every instance and every list of texts, and \<open>ImportError\<close>
  otherwise.
\<close>

theorem GeneralTextEmbedding_encode_raises:
  "fst (GeneralTextEmbedding_encode M self input_texts w) =
     Inl (if importable M ''torch.nn.functional''
          then Exc TypeError ''average_pool() takes 2 positional arguments but 3 were given''
          else Exc ImportError ''Please install Pytorch to use this method.'')"
  by (simp add: GeneralTextEmbedding_encode_def call_on_class_def bind_call_def
        average_pool_params_def digit_def Let_def)

end
